theory Spec2Isabelle
  imports Main "HOL-Library.Char_ord" "HOL-Library.List_Lexorder" "HOL-Library.Multiset"
begin

section \<open>Go values\<close>

text \<open>
  A Go \<^verbatim>\<open>error\<close> is a value; \<^verbatim>\<open>nil\<close> is \<open>None\<close>. A function returning
  \<^verbatim>\<open>(T, error)\<close> returns a pair; a pointer or interface that may be \<^verbatim>\<open>nil\<close>
  is an \<open>option\<close>. A call that panics (a nil dereference) does not return:
  its outcome is \<open>Panics\<close>.
\<close>

datatype error = Error string

datatype 'a outcome = Panics | Returns 'a

section \<open>Data model of object/store.go\<close>

datatype File = File
  (Key: string)
  (Title: string)
  (Size: int)
  (File_CreatedTime: string)
  (IsLeaf: bool)
  (Url: string)
  (Children: "File list")
  (ChildrenMap: "(string \<times> File) list")

record Properties =
  CollectedTime :: string
  Subject :: string

record Store =
  Owner :: string
  Name :: string
  CreatedTime :: string
  DisplayName :: string
  StorageProvider :: string
  ModelProvider :: string
  EmbeddingProvider :: string
  Frequency :: int
  LimitMinutes :: int
  Welcome :: string
  Prompt :: string
  FileTree :: "File option"
  PropertiesMap :: "string \<rightharpoonup> Properties"

text \<open>The zero value \<^verbatim>\<open>Store{Owner: owner, Name: name}\<close>.\<close>

definition Store_literal :: "string \<Rightarrow> string \<Rightarrow> Store" where
  "Store_literal owner name =
     \<lparr>Owner = owner, Name = name, CreatedTime = [], DisplayName = [],
      StorageProvider = [], ModelProvider = [], EmbeddingProvider = [],
      Frequency = 0, LimitMinutes = 0, Welcome = [], Prompt = [],
      FileTree = None, PropertiesMap = Map.empty\<rparr>"

section \<open>Composite ids\<close>

text \<open>
  \<^verbatim>\<open>func (store *Store) GetId() string { return fmt.Sprintf("%s/%s", store.Owner, store.Name) }\<close>
\<close>

definition GetId :: "Store \<Rightarrow> string" where
  "GetId store = Owner store @ ''/'' @ Name store"

text \<open>
  Modelled from the spec: \<^verbatim>\<open>util.GetIdFromOwnerAndName\<close> and
  \<^verbatim>\<open>util.GetOwnerAndNameFromId\<close> live in package util, which is not part of
  the sources at hand. The spec: a composite id is the string "<owner>/<name>", and
  parsing and formatting it is a pure, reversible operation. Formatting joins the two
  components with the separator; parsing splits the id at every separator and yields
  the pair when there are exactly two components. The spec says nothing about an id of
  another shape: the model yields no pair for it (\<open>None\<close>).
\<close>

definition GetIdFromOwnerAndName :: "string \<Rightarrow> string \<Rightarrow> string" where
  "GetIdFromOwnerAndName owner name = owner @ ''/'' @ name"

fun split_sep :: "char \<Rightarrow> string \<Rightarrow> string list" where
  "split_sep c [] = [[]]"
| "split_sep c (x # xs) =
     (if x = c then [] # split_sep c xs
      else (case split_sep c xs of
              [] \<Rightarrow> [[x]]
            | t # ts \<Rightarrow> (x # t) # ts))"

definition GetOwnerAndNameFromId :: "string \<Rightarrow> (string \<times> string) option" where
  "GetOwnerAndNameFromId id' =
     (case split_sep (CHR ''/'') id' of
        [owner, name] \<Rightarrow> Some (owner, name)
      | _ \<Rightarrow> None)"

section \<open>The persistence engine\<close>

text \<open>
  \<^verbatim>\<open>adapter.engine\<close> is an xorm engine, an external library over the database.
  The model holds the rows of table \<^verbatim>\<open>store\<close>, whose primary key is
  (owner, name), and for each kind of statement the error the database answers it with,
  if any. A statement that fails changes nothing.
\<close>

datatype db_op = OpFind | OpGet | OpUpdate | OpDelete

record engine =
  store_table :: "Store list"
  fault :: "db_op \<Rightarrow> error option"

text \<open>
  xorm builds the condition of \<^verbatim>\<open>Get\<close> and \<^verbatim>\<open>Find\<close> from the non-zero fields of
  the bean it is given; the source only ever sets \<^verbatim>\<open>Owner\<close> and \<^verbatim>\<open>Name\<close> there.
  \<^verbatim>\<open>ID(core.PK{owner, name})\<close> selects by the primary key itself.
\<close>

definition bean_matches :: "Store \<Rightarrow> Store \<Rightarrow> bool" where
  "bean_matches bean row =
     ((Owner bean = [] \<or> Owner row = Owner bean) \<and>
      (Name bean = [] \<or> Name row = Name bean))"

definition has_pk :: "string \<times> string \<Rightarrow> Store \<Rightarrow> bool" where
  "has_pk pk row = (Owner row = fst pk \<and> Name row = snd pk)"

text \<open>
  \<^verbatim>\<open>engine.Desc("created_time").Find(&stores, bean)\<close>: the matching rows, latest
  creation time first. The database promises no order among rows of equal creation
  time; in the model it follows the order of the rows in the table, which is arbitrary.
  A bean whose \<^verbatim>\<open>Owner\<close> is the empty string puts no condition on the owner.
\<close>

definition engine_Desc_created_time_Find :: "engine \<Rightarrow> Store \<Rightarrow> Store list \<times> error option" where
  "engine_Desc_created_time_Find eng bean =
     (case fault eng OpFind of
        Some e \<Rightarrow> ([], Some e)
      | None \<Rightarrow> (rev (sort_key CreatedTime (filter (bean_matches bean) (store_table eng))), None))"

text \<open>
  \<^verbatim>\<open>engine.Get(&bean)\<close>: the first matching row is written into the bean; the flag
  says whether there was one.
\<close>

definition engine_Get :: "engine \<Rightarrow> Store \<Rightarrow> (Store \<times> bool) \<times> error option" where
  "engine_Get eng bean =
     (case fault eng OpGet of
        Some e \<Rightarrow> ((bean, False), Some e)
      | None \<Rightarrow>
          (case find (bean_matches bean) (store_table eng) of
             Some row \<Rightarrow> ((row, True), None)
           | None \<Rightarrow> ((bean, False), None)))"

text \<open>
  \<^verbatim>\<open>engine.ID(pk).AllCols().Update(store)\<close>: every column of the rows with that
  key is overwritten; the count of those rows is returned.
\<close>

definition engine_ID_AllCols_Update ::
  "engine \<Rightarrow> string \<times> string \<Rightarrow> Store \<Rightarrow> (int \<times> error option) \<times> engine" where
  "engine_ID_AllCols_Update eng pk store =
     (case fault eng OpUpdate of
        Some e \<Rightarrow> ((0, Some e), eng)
      | None \<Rightarrow>
          ((int (length (filter (has_pk pk) (store_table eng))), None),
           eng\<lparr>store_table := map (\<lambda>row. if has_pk pk row then store else row) (store_table eng)\<rparr>))"

text \<open>\<^verbatim>\<open>engine.ID(pk).Delete(&Store{})\<close>: the rows with that key are removed and counted.\<close>

definition engine_ID_Delete ::
  "engine \<Rightarrow> string \<times> string \<Rightarrow> (int \<times> error option) \<times> engine" where
  "engine_ID_Delete eng pk =
     (case fault eng OpDelete of
        Some e \<Rightarrow> ((0, Some e), eng)
      | None \<Rightarrow>
          ((int (length (filter (has_pk pk) (store_table eng))), None),
           eng\<lparr>store_table := filter (\<lambda>row. \<not> has_pk pk row) (store_table eng)\<rparr>))"

section \<open>Store repository (store.go, lines 71 to 154)\<close>

definition GetStores :: "engine \<Rightarrow> string \<Rightarrow> Store list \<times> error option" where
  "GetStores eng owner =
     (case engine_Desc_created_time_Find eng (Store_literal owner []) of
        (stores, Some err) \<Rightarrow> (stores, Some err)
      | (stores, None) \<Rightarrow> (stores, None))"

text \<open>
  The loop of \<^verbatim>\<open>GetDefaultStore\<close>:
  \<^verbatim>\<open>for _, store := range stores { if store.StorageProvider != "" { return store, nil } }\<close>.
  \<open>None\<close> when the loop falls through.
\<close>

fun GetDefaultStore_loop :: "Store list \<Rightarrow> Store option" where
  "GetDefaultStore_loop [] = None"
| "GetDefaultStore_loop (store # stores) =
     (if StorageProvider store \<noteq> [] then Some store else GetDefaultStore_loop stores)"

definition GetDefaultStore :: "engine \<Rightarrow> string \<Rightarrow> Store option \<times> error option" where
  "GetDefaultStore eng owner =
     (case GetStores eng owner of
        (stores, Some err) \<Rightarrow> (None, Some err)
      | (stores, None) \<Rightarrow>
          (case GetDefaultStore_loop stores of
             Some store \<Rightarrow> (Some store, None)
           | None \<Rightarrow>
               (if length stores > 0 then (Some (stores ! 0), None)
                else (None, None))))"

definition getStore :: "engine \<Rightarrow> string \<Rightarrow> string \<Rightarrow> Store option \<times> error option" where
  "getStore eng owner name =
     (case engine_Get eng (Store_literal owner name) of
        ((store, existed), Some err) \<Rightarrow> (Some store, Some err)
      | ((store, existed), None) \<Rightarrow>
          (if existed then (Some store, None) else (None, None)))"

text \<open>
  An id that does not parse yields no owner and name, so the callers of the parser
  do not return either.
\<close>

definition GetStore :: "engine \<Rightarrow> string \<Rightarrow> (Store option \<times> error option) outcome" where
  "GetStore eng id' =
     (case GetOwnerAndNameFromId id' of
        None \<Rightarrow> Panics
      | Some (owner, name) \<Rightarrow> Returns (getStore eng owner name))"

text \<open>
  \<^verbatim>\<open>UpdateStore\<close> discards both the record found by \<^verbatim>\<open>getStore\<close> and the
  count of affected rows (\<^verbatim>\<open>_, err = ...Update(store)\<close>); its last lines are
  \<^verbatim>\<open>// return affected != 0\<close> and \<^verbatim>\<open>return true, nil\<close>.
\<close>

definition UpdateStore ::
  "engine \<Rightarrow> string \<Rightarrow> Store option \<Rightarrow> (bool \<times> error option) outcome \<times> engine" where
  "UpdateStore eng id' store =
     (case GetOwnerAndNameFromId id' of
        None \<Rightarrow> (Panics, eng)
      | Some (owner, name) \<Rightarrow>
          (case getStore eng owner name of
             (found, Some err) \<Rightarrow> (Returns (False, Some err), eng)
           | (found, None) \<Rightarrow>
               (case store of
                  None \<Rightarrow> (Returns (False, None), eng)
                | Some st \<Rightarrow>
                    (case engine_ID_AllCols_Update eng (owner, name) st of
                       ((affected, Some err), eng') \<Rightarrow> (Returns (False, Some err), eng')
                     | ((affected, None), eng') \<Rightarrow> (Returns (True, None), eng')))))"

text \<open>\<^verbatim>\<open>DeleteStore\<close> reads \<^verbatim>\<open>store.Owner\<close>: a nil store panics.\<close>

definition DeleteStore ::
  "engine \<Rightarrow> Store option \<Rightarrow> (bool \<times> error option) outcome \<times> engine" where
  "DeleteStore eng store =
     (case store of
        None \<Rightarrow> (Panics, eng)
      | Some st \<Rightarrow>
          (case engine_ID_Delete eng (Owner st, Name st) of
             ((affected, Some err), eng') \<Rightarrow> (Returns (False, Some err), eng')
           | ((affected, None), eng') \<Rightarrow> (Returns (affected \<noteq> 0, None), eng')))"

section \<open>Providers and the indexing pipeline\<close>

text \<open>
  Modelled from the spec: the \<^verbatim>\<open>Provider\<close> record is declared elsewhere in package
  object, not in store.go. The spec: an owner-scoped named record carrying a Type and a
  SubType; store.go reads its fields Type, Name and SubType.
\<close>

record Provider =
  Provider_Owner :: string
  Provider_Name :: string
  Provider_Type :: string
  Provider_SubType :: string

text \<open>
  The arguments of one call of \<^verbatim>\<open>addVectorsForStore\<close>, in the order of the call
  in store.go: storage client, embedding client, prefix, store name, embedding provider
  name, model sub-type, limit.
\<close>

record ('s, 'e) pipeline_call =
  arg_storageProviderObj :: "'s option"
  arg_embeddingProviderObj :: "'e option"
  arg_prefix :: string
  arg_storeName :: string
  arg_embeddingProviderName :: string
  arg_modelSubType :: string
  arg_limit :: int

text \<open>
  The functions store.go calls and does not define are parameters: the provider lookups
  (\<^verbatim>\<open>GetProvider\<close> and the three default lookups, each returning a record that
  may be nil and an error), the client constructors, and the indexing pipeline. The
  clients are values of the types \<open>'s\<close> (storage) and \<open>'e\<close> (embedding).
  \<^verbatim>\<open>Provider.GetEmbeddingProvider\<close> has a pointer receiver and is called by
  \<^verbatim>\<open>RefreshStoreVectors\<close> with no nil check, so it takes a receiver that may be
  nil, on which it may panic.
\<close>

record ('s, 'e) collaborators =
  GetProvider :: "string \<Rightarrow> Provider option \<times> error option"
  GetDefaultStorageProvider :: "Provider option \<times> error option"
  GetDefaultModelProvider :: "Provider option \<times> error option"
  GetDefaultEmbeddingProvider :: "Provider option \<times> error option"
  Provider_GetStorageProviderObj :: "Provider \<Rightarrow> 's option \<times> error option"
  Provider_GetEmbeddingProvider :: "Provider option \<Rightarrow> ('e option \<times> error option) outcome"
  NewCasdoorProvider :: "string \<Rightarrow> 's option \<times> error option"
  addVectorsForStore :: "('s, 'e) pipeline_call \<Rightarrow> bool \<times> error option"

section \<open>Provider resolution (store.go, lines 160 to 196)\<close>

definition GetStorageProviderObj ::
  "('s, 'e) collaborators \<Rightarrow> Store \<Rightarrow> 's option \<times> error option" where
  "GetStorageProviderObj env store =
     (let (provider, err) =
            (if StorageProvider store = [] then GetDefaultStorageProvider env
             else (let providerId = GetIdFromOwnerAndName (Owner store) (StorageProvider store)
                   in GetProvider env providerId))
      in if err \<noteq> None then (None, err)
         else (case provider of
                 Some p \<Rightarrow> Provider_GetStorageProviderObj env p
               | None \<Rightarrow> NewCasdoorProvider env (StorageProvider store)))"

definition GetModelProvider ::
  "('s, 'e) collaborators \<Rightarrow> Store \<Rightarrow> Provider option \<times> error option" where
  "GetModelProvider env store =
     (if ModelProvider store = [] then GetDefaultModelProvider env
      else (let providerId = GetIdFromOwnerAndName (Owner store) (ModelProvider store)
            in GetProvider env providerId))"

definition GetEmbeddingProvider ::
  "('s, 'e) collaborators \<Rightarrow> Store \<Rightarrow> Provider option \<times> error option" where
  "GetEmbeddingProvider env store =
     (if EmbeddingProvider store = [] then GetDefaultEmbeddingProvider env
      else (let providerId = GetIdFromOwnerAndName (Owner store) (EmbeddingProvider store)
            in GetProvider env providerId))"

section \<open>Vector refresh (store.go, lines 198 to 226)\<close>

text \<open>
  The result is the outcome of the call together with the calls of the pipeline it
  made, in order. Reading \<^verbatim>\<open>embeddingProvider.Type\<close> or
  \<^verbatim>\<open>modelProvider.SubType\<close> on a nil record panics; the arguments of the
  pipeline are evaluated before it is called. A nil store panics at
  \<^verbatim>\<open>store.StorageProvider\<close>.
\<close>

definition RefreshStoreVectors ::
  "('s, 'e) collaborators \<Rightarrow> Store option \<Rightarrow>
     (bool \<times> error option) outcome \<times> ('s, 'e) pipeline_call list" where
  "RefreshStoreVectors env sp =
     (case sp of
        None \<Rightarrow> (Panics, [])
      | Some store \<Rightarrow>
     (case GetStorageProviderObj env store of
        (storageProviderObj, Some err) \<Rightarrow> (Returns (False, Some err), [])
      | (storageProviderObj, None) \<Rightarrow>
     (case GetModelProvider env store of
        (modelProvider, Some err) \<Rightarrow> (Returns (False, Some err), [])
      | (modelProvider, None) \<Rightarrow>
     (case GetEmbeddingProvider env store of
        (embeddingProvider, Some err) \<Rightarrow> (Returns (False, Some err), [])
      | (embeddingProvider, None) \<Rightarrow>
     (case Provider_GetEmbeddingProvider env embeddingProvider of
        Panics \<Rightarrow> (Panics, [])
      | Returns (embeddingProviderObj, Some err) \<Rightarrow> (Returns (False, Some err), [])
      | Returns (embeddingProviderObj, None) \<Rightarrow>
     (case embeddingProvider of
        None \<Rightarrow> (Panics, [])
      | Some ep \<Rightarrow>
     (let limit = (if Provider_Type ep = ''OpenAI'' then 3 else 100000) in
     (case modelProvider of
        None \<Rightarrow> (Panics, [])
      | Some mp \<Rightarrow>
     (let call = \<lparr>arg_storageProviderObj = storageProviderObj,
                  arg_embeddingProviderObj = embeddingProviderObj,
                  arg_prefix = [],
                  arg_storeName = Name store,
                  arg_embeddingProviderName = Provider_Name ep,
                  arg_modelSubType = Provider_SubType mp,
                  arg_limit = limit\<rparr>
      in (Returns (addVectorsForStore env call), [call]))))))))))"

section \<open>Concrete repositories and collaborators\<close>

text \<open>
  A tenant \<open>t1\<close> with two stores: \<open>a\<close>, created last and with no storage
  provider, and \<open>b\<close>, created first, with storage provider \<open>p1\<close>.
\<close>

definition store_a :: Store where
  "store_a = (Store_literal ''t1'' ''a'')\<lparr>CreatedTime := ''2023-09-02T10:00:00Z''\<rparr>"

definition store_b :: Store where
  "store_b = (Store_literal ''t1'' ''b'')
     \<lparr>CreatedTime := ''2023-09-01T10:00:00Z'', StorageProvider := ''p1''\<rparr>"

definition demo_engine :: engine where
  "demo_engine = \<lparr>store_table = [store_b, store_a], fault = (\<lambda>op. None)\<rparr>"

text \<open>
  Two tenants: \<open>t1\<close> with \<open>a\<close>, \<open>b\<close> and an older store \<open>d\<close>
  that has a storage provider too, and \<open>t2\<close> with \<open>c\<close>, the latest store of
  the table. The rows are not in order of creation.
\<close>

definition store_c :: Store where
  "store_c = (Store_literal ''t2'' ''c'')
     \<lparr>CreatedTime := ''2023-09-03T10:00:00Z'', StorageProvider := ''p2''\<rparr>"

definition store_d :: Store where
  "store_d = (Store_literal ''t1'' ''d'')
     \<lparr>CreatedTime := ''2023-08-31T10:00:00Z'', StorageProvider := ''p3''\<rparr>"

definition two_tenant_engine :: engine where
  "two_tenant_engine =
     \<lparr>store_table = [store_d, store_b, store_c, store_a], fault = (\<lambda>op. None)\<rparr>"

text \<open>
  Providers: \<open>t1/emb-openai\<close> is the only named provider; the three defaults
  exist. Clients are named by strings. The pipeline reports success.
\<close>

definition emb_openai :: Provider where
  "emb_openai = \<lparr>Provider_Owner = ''t1'', Provider_Name = ''emb-openai'',
     Provider_Type = ''OpenAI'', Provider_SubType = ''text-embedding-ada-002''\<rparr>"

definition default_storage :: Provider where
  "default_storage = \<lparr>Provider_Owner = ''admin'', Provider_Name = ''default-storage'',
     Provider_Type = ''Local File System'', Provider_SubType = []\<rparr>"

definition default_model :: Provider where
  "default_model = \<lparr>Provider_Owner = ''admin'', Provider_Name = ''default-model'',
     Provider_Type = ''OpenAI'', Provider_SubType = ''gpt-3.5-turbo''\<rparr>"

definition default_embedding :: Provider where
  "default_embedding = \<lparr>Provider_Owner = ''admin'', Provider_Name = ''default-embedding'',
     Provider_Type = ''Hugging Face'', Provider_SubType = ''all-MiniLM-L6-v2''\<rparr>"

definition demo_collaborators :: "(string, string) collaborators" where
  "demo_collaborators =
     \<lparr>GetProvider = (\<lambda>providerId.
          if providerId = ''t1/emb-openai'' then (Some emb_openai, None) else (None, None)),
      GetDefaultStorageProvider = (Some default_storage, None),
      GetDefaultModelProvider = (Some default_model, None),
      GetDefaultEmbeddingProvider = (Some default_embedding, None),
      Provider_GetStorageProviderObj = (\<lambda>p. (Some (Provider_Name p), None)),
      Provider_GetEmbeddingProvider = (\<lambda>p.
          case p of None \<Rightarrow> Panics | Some r \<Rightarrow> Returns (Some (Provider_Name r), None)),
      NewCasdoorProvider = (\<lambda>providerName. (Some providerName, None)),
      addVectorsForStore = (\<lambda>call. (True, None))\<rparr>"

text \<open>
  \<open>store_s1\<close> is the store of the spec's end-to-end scenario. \<open>store_s2\<close>
  names a model provider that does not exist; \<open>store_s3\<close> names three providers
  that do not exist.
\<close>

definition store_s1 :: Store where
  "store_s1 = (Store_literal ''t1'' ''s1'')\<lparr>EmbeddingProvider := ''emb-openai''\<rparr>"

definition store_s2 :: Store where
  "store_s2 = (Store_literal ''t1'' ''s2'')
     \<lparr>ModelProvider := ''missing-model'', EmbeddingProvider := ''emb-openai''\<rparr>"

definition store_s3 :: Store where
  "store_s3 = (Store_literal ''t1'' ''s3'')
     \<lparr>StorageProvider := ''ext-bucket'', ModelProvider := ''missing-model'',
      EmbeddingProvider := ''missing-embedding''\<rparr>"

lemmas demo_defs = demo_collaborators_def emb_openai_def default_storage_def default_model_def
  default_embedding_def store_s1_def store_s2_def store_s3_def Store_literal_def
  GetStorageProviderObj_def GetModelProvider_def GetEmbeddingProvider_def
  GetIdFromOwnerAndName_def

section \<open>Composite id round trip\<close>

lemma split_sep_no_sep:
  "c \<notin> set xs \<Longrightarrow> split_sep c xs = [xs]"
  by (induction xs) auto

lemma split_sep_append:
  "c \<notin> set xs \<Longrightarrow> split_sep c (xs @ c # ys) = xs # split_sep c ys"
  by (induction xs) auto

text \<open>
  C9. For every owner and name that do not contain the separator "/", \<open>GetId\<close>
  yields the string owner, "/", name, and parsing that string yields back exactly the
  owner and the name.
\<close>

theorem GetId_round_trip:
  assumes "CHR ''/'' \<notin> set (Owner store)" and "CHR ''/'' \<notin> set (Name store)"
  shows "GetId store = Owner store @ ''/'' @ Name store \<and>
         GetOwnerAndNameFromId (GetId store) = Some (Owner store, Name store)"
proof -
  have "split_sep (CHR ''/'') (Owner store @ CHR ''/'' # Name store)
          = [Owner store, Name store]"
    using assms by (simp add: split_sep_append split_sep_no_sep)
  then show ?thesis
    by (simp add: GetId_def GetOwnerAndNameFromId_def)
qed

text \<open>The spec's example: owner "acme" and name "kb1" give "acme/kb1" and back.\<close>

theorem GetId_round_trip_witness:
  "GetId (Store_literal ''acme'' ''kb1'') = ''acme/kb1'' \<and>
   GetOwnerAndNameFromId ''acme/kb1'' = Some (''acme'', ''kb1'')"
  using GetId_round_trip [of "Store_literal ''acme'' ''kb1''"]
  by (simp add: Store_literal_def GetId_def)

section \<open>The default store\<close>

lemma GetDefaultStore_loop_find:
  "GetDefaultStore_loop stores = find (\<lambda>s. StorageProvider s \<noteq> []) stores"
  by (induction stores) auto

text \<open>
  Whatever the listing is, \<open>GetDefaultStore\<close> picks from it the first store with a
  storage provider, else its first store, else nothing.
\<close>

lemma GetDefaultStore_of_listing:
  assumes "GetStores eng owner = (stores, None)"
  shows "GetDefaultStore eng owner =
           (case find (\<lambda>s. StorageProvider s \<noteq> []) stores of
              Some store \<Rightarrow> (Some store, None)
            | None \<Rightarrow> (case stores of
                         [] \<Rightarrow> (None, None)
                       | first # rest \<Rightarrow> (Some first, None)))"
  using assms
  by (simp add: GetDefaultStore_def GetDefaultStore_loop_find split: option.splits list.splits)

lemma find_Some_member:
  "find P xs = Some x \<Longrightarrow> x \<in> set xs \<and> P x"
  by (induction xs) (auto split: if_splits)

text \<open>
  For an owner that is not the empty string, the listing is the rows of that owner in
  the table, latest creation time first.
\<close>

lemma bean_matches_owner:
  "owner \<noteq> [] \<Longrightarrow> bean_matches (Store_literal owner []) = (\<lambda>row. Owner row = owner)"
  by (auto simp: bean_matches_def Store_literal_def)

lemma GetStores_listing:
  assumes "owner \<noteq> []" and "fault eng OpFind = None"
  shows "GetStores eng owner =
           (rev (sort_key CreatedTime (filter (\<lambda>row. Owner row = owner) (store_table eng))), None)"
  using assms
  by (simp add: GetStores_def engine_Desc_created_time_Find_def bean_matches_owner)

text \<open>
  C7, as stated, fails for the owner that is the empty string: no row of the table has
  that owner, yet the listing is the whole table (the condition bean has no non-zero
  field) and \<open>GetDefaultStore\<close> returns store \<open>b\<close> of tenant \<open>t1\<close>.
\<close>

theorem GetDefaultStore_empty_owner_lists_every_tenant:
  "filter (\<lambda>row. Owner row = []) (store_table demo_engine) = [] \<and>
   GetStores demo_engine [] = ([store_a, store_b], None) \<and>
   GetDefaultStore demo_engine [] = (Some store_b, None)"
  by (simp add: GetDefaultStore_def GetStores_def engine_Desc_created_time_Find_def
        demo_engine_def bean_matches_def store_a_def store_b_def Store_literal_def)

text \<open>
  C7, amended. For every owner other than the empty string, when the listing query
  succeeds: the listing holds exactly the rows of that owner (each as often as the table
  does), in descending order of creation time, and \<open>GetDefaultStore\<close> returns the
  first store of that listing whose \<open>StorageProvider\<close> is not empty; when no store
  of the listing has one, the first store of the listing; when the owner has no stores,
  no record. No error is returned in any of the three cases.
\<close>

theorem GetDefaultStore_first_with_StorageProvider:
  assumes "owner \<noteq> []" and "fault eng OpFind = None"
  shows "\<exists>stores.
           GetStores eng owner = (stores, None) \<and>
           mset stores = mset (filter (\<lambda>row. Owner row = owner) (store_table eng)) \<and>
           sorted (rev (map CreatedTime stores)) \<and>
           GetDefaultStore eng owner =
             (case find (\<lambda>s. StorageProvider s \<noteq> []) stores of
                Some store \<Rightarrow> (Some store, None)
              | None \<Rightarrow> (case stores of
                           [] \<Rightarrow> (None, None)
                         | first # rest \<Rightarrow> (Some first, None)))"
proof -
  let ?rows = "filter (\<lambda>row. Owner row = owner) (store_table eng)"
  let ?stores = "rev (sort_key CreatedTime ?rows)"
  have listing: "GetStores eng owner = (?stores, None)"
    using assms by (rule GetStores_listing)
  have perm: "mset ?stores = mset ?rows"
    by simp
  have desc: "sorted (rev (map CreatedTime ?stores))"
    by (simp add: rev_map)
  have pick: "GetDefaultStore eng owner =
      (case find (\<lambda>s. StorageProvider s \<noteq> []) ?stores of
         Some store \<Rightarrow> (Some store, None)
       | None \<Rightarrow> (case ?stores of
                    [] \<Rightarrow> (None, None)
                  | first # rest \<Rightarrow> (Some first, None)))"
    using listing by (rule GetDefaultStore_of_listing)
  from listing perm desc pick show ?thesis
    by blast
qed

text \<open>
  The same without naming the listing, so whatever the order among rows of equal
  creation time: when the owner has a store with a storage provider, the default store
  is a store of the owner with a storage provider, and no store of the owner with a
  storage provider was created later; when the owner has no store there is no default.
\<close>

lemma find_latest:
  assumes "sorted (rev (map k xs))" and "find P xs = Some s" and "r \<in> set xs" and "P r"
  shows "k r \<le> k s"
  using assms
proof (induction xs)
  case Nil
  then show ?case by simp
next
  case (Cons x xs)
  from Cons.prems(1) have tail: "sorted (rev (map k xs))" and below: "\<forall>y\<in>set xs. k y \<le> k x"
    by (auto simp: sorted_append)
  show ?case
  proof (cases "P x")
    case True
    with Cons.prems(2) have "s = x" by simp
    with below Cons.prems(3) show ?thesis by auto
  next
    case False
    with Cons.prems have "find P xs = Some s" and "r \<in> set xs" by auto
    with Cons.IH tail Cons.prems(4) show ?thesis by simp
  qed
qed

lemma GetDefaultStore_latest_with_StorageProvider:
  assumes "owner \<noteq> []" and "fault eng OpFind = None"
    and "row \<in> set (store_table eng)" and "Owner row = owner"
    and "StorageProvider row \<noteq> []"
  shows "\<exists>store. GetDefaultStore eng owner = (Some store, None) \<and>
           store \<in> set (store_table eng) \<and> Owner store = owner \<and>
           StorageProvider store \<noteq> [] \<and> CreatedTime row \<le> CreatedTime store"
proof -
  let ?rows = "filter (\<lambda>row. Owner row = owner) (store_table eng)"
  let ?stores = "rev (sort_key CreatedTime ?rows)"
  have listing: "GetStores eng owner = (?stores, None)"
    using assms(1,2) by (rule GetStores_listing)
  have inl: "row \<in> set ?stores" using assms(3,4) by simp
  with assms(5) obtain store where f: "find (\<lambda>s. StorageProvider s \<noteq> []) ?stores = Some store"
    by (cases "find (\<lambda>s. StorageProvider s \<noteq> []) ?stores") (auto simp: find_None_iff)
  then have mem: "store \<in> set ?stores" and sp: "StorageProvider store \<noteq> []"
    using find_Some_member [OF f] by simp_all
  have desc: "sorted (rev (map CreatedTime ?stores))"
    by (simp add: rev_map)
  have "CreatedTime row \<le> CreatedTime store"
    using find_latest [OF desc f inl assms(5)] .
  moreover have "GetDefaultStore eng owner = (Some store, None)"
    using GetDefaultStore_of_listing [OF listing] f by simp
  ultimately show ?thesis using mem sp by auto
qed

lemma GetDefaultStore_no_stores:
  assumes "owner \<noteq> []" and "fault eng OpFind = None"
    and "filter (\<lambda>row. Owner row = owner) (store_table eng) = []"
  shows "GetDefaultStore eng owner = (None, None)"
  using GetDefaultStore_of_listing [OF GetStores_listing [OF assms(1,2)]] assms(3)
  by simp

text \<open>
  Tenant \<open>t1\<close> of the two-tenant table is listed \<open>[a, b, d]\<close>: its default
  store is \<open>b\<close>, not the later \<open>c\<close> of tenant \<open>t2\<close> nor the older
  \<open>d\<close>; tenant \<open>t3\<close> has no store and no default. The example of C7: the
  listing \<open>[a, b]\<close>, \<open>a\<close> without a storage provider and \<open>b\<close> with
  \<open>p1\<close>, has the default store \<open>b\<close>.
\<close>

theorem GetDefaultStore_first_with_StorageProvider_witness:
  "GetStores two_tenant_engine ''t1'' = ([store_a, store_b, store_d], None) \<and>
   GetDefaultStore two_tenant_engine ''t1'' = (Some store_b, None) \<and>
   GetDefaultStore two_tenant_engine ''t2'' = (Some store_c, None) \<and>
   GetDefaultStore two_tenant_engine ''t3'' = (None, None) \<and>
   GetStores demo_engine ''t1'' = ([store_a, store_b], None) \<and>
   GetDefaultStore demo_engine ''t1'' = (Some store_b, None)"
  using GetDefaultStore_first_with_StorageProvider [of "''t1''" two_tenant_engine]
    GetDefaultStore_first_with_StorageProvider [of "''t2''" two_tenant_engine]
    GetDefaultStore_first_with_StorageProvider [of "''t3''" two_tenant_engine]
    GetDefaultStore_first_with_StorageProvider [of "''t1''" demo_engine]
  by (simp add: GetStores_def engine_Desc_created_time_Find_def two_tenant_engine_def
        demo_engine_def bean_matches_def store_a_def store_b_def store_c_def store_d_def
        Store_literal_def)

section \<open>Deleting and updating by key\<close>

lemma filter_absent_key:
  assumes "(Owner store, Name store) \<notin> set (map (\<lambda>row. (Owner row, Name row)) rows)"
  shows "filter (has_pk (Owner store, Name store)) rows = []"
    and "filter (\<lambda>row. \<not> has_pk (Owner store, Name store) row) rows = rows"
  using assms by (induction rows) (auto simp: has_pk_def)

text \<open>
  C8. For every store whose key (owner, name) is not the key of any row,
  \<open>DeleteStore\<close> returns false and leaves the table as it was; the absence of the
  key raises no error: the error returned is the one of the database for the delete
  statement, nil when the statement goes through.
\<close>

theorem DeleteStore_absent_key:
  assumes "(Owner store, Name store)
             \<notin> set (map (\<lambda>row. (Owner row, Name row)) (store_table eng))"
  shows "DeleteStore eng (Some store) = (Returns (False, fault eng OpDelete), eng) \<and>
         (fault eng OpDelete = None \<longrightarrow>
            DeleteStore eng (Some store) = (Returns (False, None), eng))"
  using filter_absent_key [OF assms]
  by (simp add: DeleteStore_def engine_ID_Delete_def split: option.splits)

text \<open>Deleting \<open>t1/gone\<close>, which is not in the table: (false, nil).\<close>

theorem DeleteStore_absent_key_witness:
  "DeleteStore demo_engine (Some (Store_literal ''t1'' ''gone''))
     = (Returns (False, None), demo_engine)"
  using DeleteStore_absent_key [of "Store_literal ''t1'' ''gone''" demo_engine]
  by (simp add: demo_engine_def store_a_def store_b_def Store_literal_def)

text \<open>
  C6, as stated, fails: \<open>t1/s1\<close> is not in the table, the lookup finds no record,
  the write affects no row, and \<open>UpdateStore\<close> returns (true, nil).
\<close>

theorem UpdateStore_absent_key_reports_success:
  "getStore demo_engine ''t1'' ''s1'' = (None, None) \<and>
   fst (engine_ID_AllCols_Update demo_engine (''t1'', ''s1'') (Store_literal ''t1'' ''s1''))
     = (0, None) \<and>
   UpdateStore demo_engine ''t1/s1'' (Some (Store_literal ''t1'' ''s1''))
     = (Returns (True, None), demo_engine)"
  by (simp add: UpdateStore_def GetOwnerAndNameFromId_def getStore_def engine_Get_def
        engine_ID_AllCols_Update_def demo_engine_def store_a_def store_b_def Store_literal_def
        bean_matches_def has_pk_def)

text \<open>
  C6, amended. For every id of the form owner/name and every non-nil store,
  \<open>UpdateStore\<close> returns (true, nil) exactly when neither the lookup nor the write
  returns an error, whatever the number of rows the write affects; otherwise it returns
  false with the first of those errors.
\<close>

theorem UpdateStore_success_ignores_affected:
  assumes "GetOwnerAndNameFromId id' = Some (owner, name)"
  shows "fst (UpdateStore eng id' (Some store)) =
           Returns (case fault eng OpGet of
                      Some err \<Rightarrow> (False, Some err)
                    | None \<Rightarrow> (case fault eng OpUpdate of
                                 Some err \<Rightarrow> (False, Some err)
                               | None \<Rightarrow> (True, None)))"
  using assms
  by (simp add: UpdateStore_def getStore_def engine_Get_def engine_ID_AllCols_Update_def
           split: option.splits prod.splits)

theorem UpdateStore_success_ignores_affected_witness:
  "GetOwnerAndNameFromId ''t1/a'' = Some (''t1'', ''a'') \<and>
   fst (UpdateStore demo_engine ''t1/a'' (Some store_a)) = Returns (True, None)"
proof -
  have h: "GetOwnerAndNameFromId ''t1/a'' = Some (''t1'', ''a'')"
    by (simp add: GetOwnerAndNameFromId_def)
  show ?thesis
    using h UpdateStore_success_ignores_affected [OF h, of demo_engine store_a]
    by (simp add: demo_engine_def)
qed

section \<open>Provider resolution\<close>

text \<open>
  C3. For every store whose \<open>StorageProvider\<close> is not empty and names a provider
  the lookup does not find (no record, no error), \<open>GetStorageProviderObj\<close> returns
  what the client constructor \<open>NewCasdoorProvider\<close> returns for the raw
  \<open>StorageProvider\<close> string: the missing record is not an error, and the call
  fails only if that constructor does.
\<close>

theorem GetStorageProviderObj_fallback:
  assumes "StorageProvider store \<noteq> []"
    and "GetProvider env (GetIdFromOwnerAndName (Owner store) (StorageProvider store))
           = (None, None)"
  shows "GetStorageProviderObj env store = NewCasdoorProvider env (StorageProvider store) \<and>
         (snd (NewCasdoorProvider env (StorageProvider store)) = None \<longrightarrow>
            snd (GetStorageProviderObj env store) = None)"
  using assms by (simp add: GetStorageProviderObj_def)

theorem GetStorageProviderObj_fallback_witness:
  "StorageProvider store_s3 = ''ext-bucket'' \<and>
   GetProvider demo_collaborators ''t1/ext-bucket'' = (None, None) \<and>
   GetStorageProviderObj demo_collaborators store_s3 = (Some ''ext-bucket'', None)"
  using GetStorageProviderObj_fallback [of store_s3 demo_collaborators]
  by (simp add: demo_collaborators_def store_s3_def Store_literal_def GetIdFromOwnerAndName_def)

text \<open>
  C4, as stated, fails: \<open>store_s2\<close> names the model provider \<open>missing-model\<close>,
  which does not exist, and \<open>GetModelProvider\<close> returns a nil record with a nil
  error: the call does not fail.
\<close>

theorem GetModelProvider_missing_returns_no_error:
  "ModelProvider store_s2 = ''missing-model'' \<and>
   GetProvider demo_collaborators
       (GetIdFromOwnerAndName (Owner store_s2) (ModelProvider store_s2)) = (None, None) \<and>
   GetModelProvider demo_collaborators store_s2 = (None, None) \<and>
   snd (GetModelProvider demo_collaborators store_s2) = None"
  by (simp add: demo_defs)

text \<open>
  C4, amended. For every store whose \<open>ModelProvider\<close> (respectively
  \<open>EmbeddingProvider\<close>) is not empty and names a provider the lookup does not find,
  \<open>GetModelProvider\<close> (respectively \<open>GetEmbeddingProvider\<close>) returns the
  not-found outcome of the lookup, a nil record with a nil error, whatever the default
  provider is: it neither returns an error nor substitutes the default.
\<close>

theorem named_provider_not_found:
  "(ModelProvider store \<noteq> [] \<and>
    GetProvider env (GetIdFromOwnerAndName (Owner store) (ModelProvider store)) = (None, None)
      \<longrightarrow> GetModelProvider env store = (None, None)) \<and>
   (EmbeddingProvider store \<noteq> [] \<and>
    GetProvider env (GetIdFromOwnerAndName (Owner store) (EmbeddingProvider store)) = (None, None)
      \<longrightarrow> GetEmbeddingProvider env store = (None, None))"
proof (intro conjI impI)
  assume "ModelProvider store \<noteq> [] \<and>
    GetProvider env (GetIdFromOwnerAndName (Owner store) (ModelProvider store)) = (None, None)"
  then show "GetModelProvider env store = (None, None)"
    by (simp add: GetModelProvider_def)
next
  assume "EmbeddingProvider store \<noteq> [] \<and>
    GetProvider env (GetIdFromOwnerAndName (Owner store) (EmbeddingProvider store)) = (None, None)"
  then show "GetEmbeddingProvider env store = (None, None)"
    by (simp add: GetEmbeddingProvider_def)
qed

theorem named_provider_not_found_witness:
  "GetDefaultModelProvider demo_collaborators = (Some default_model, None) \<and>
   GetDefaultEmbeddingProvider demo_collaborators = (Some default_embedding, None) \<and>
   GetModelProvider demo_collaborators store_s3 = (None, None) \<and>
   GetEmbeddingProvider demo_collaborators store_s3 = (None, None)"
  using named_provider_not_found [of store_s3 demo_collaborators]
  by (simp add: demo_collaborators_def store_s3_def Store_literal_def GetIdFromOwnerAndName_def)

text \<open>
  C5. For every store whose three provider references are empty, \<open>GetModelProvider\<close>
  and \<open>GetEmbeddingProvider\<close> return what the default model and embedding lookups
  return, and \<open>GetStorageProviderObj\<close> goes through the default storage lookup: its
  error if it has one, else the client of the default record, else (no default record)
  the client built from the raw, empty, string. The named lookup is not consulted and
  no error is raised for the empty reference itself.
\<close>

theorem empty_references_resolve_by_default:
  assumes "StorageProvider store = []" and "ModelProvider store = []"
    and "EmbeddingProvider store = []"
  shows "GetModelProvider env store = GetDefaultModelProvider env \<and>
         GetEmbeddingProvider env store = GetDefaultEmbeddingProvider env \<and>
         GetStorageProviderObj env store =
           (case GetDefaultStorageProvider env of
              (provider, Some err) \<Rightarrow> (None, Some err)
            | (Some p, None) \<Rightarrow> Provider_GetStorageProviderObj env p
            | (None, None) \<Rightarrow> NewCasdoorProvider env [])"
  using assms
  by (simp add: GetModelProvider_def GetEmbeddingProvider_def GetStorageProviderObj_def
           split: prod.splits option.splits)

theorem empty_references_resolve_by_default_witness:
  "GetModelProvider demo_collaborators (Store_literal ''t1'' ''plain'')
     = (Some default_model, None) \<and>
   GetEmbeddingProvider demo_collaborators (Store_literal ''t1'' ''plain'')
     = (Some default_embedding, None) \<and>
   GetStorageProviderObj demo_collaborators (Store_literal ''t1'' ''plain'')
     = (Some ''default-storage'', None)"
  using empty_references_resolve_by_default [of "Store_literal ''t1'' ''plain''" demo_collaborators]
  by (simp add: demo_collaborators_def Store_literal_def default_storage_def)

section \<open>Vector refresh\<close>

text \<open>
  The first resolution step that returns an error ends the call with (false, that
  error) and no call of the pipeline.
\<close>

lemma RefreshStoreVectors_aborts:
  "GetStorageProviderObj env store = (so, Some err) \<Longrightarrow>
     RefreshStoreVectors env (Some store) = (Returns (False, Some err), [])"
  "GetStorageProviderObj env store = (so, None) \<Longrightarrow>
   GetModelProvider env store = (m, Some err) \<Longrightarrow>
     RefreshStoreVectors env (Some store) = (Returns (False, Some err), [])"
  "GetStorageProviderObj env store = (so, None) \<Longrightarrow>
   GetModelProvider env store = (m, None) \<Longrightarrow>
   GetEmbeddingProvider env store = (e, Some err) \<Longrightarrow>
     RefreshStoreVectors env (Some store) = (Returns (False, Some err), [])"
  "GetStorageProviderObj env store = (so, None) \<Longrightarrow>
   GetModelProvider env store = (m, None) \<Longrightarrow>
   GetEmbeddingProvider env store = (e, None) \<Longrightarrow>
   Provider_GetEmbeddingProvider env e = Returns (eo, Some err) \<Longrightarrow>
     RefreshStoreVectors env (Some store) = (Returns (False, Some err), [])"
  by (simp_all add: RefreshStoreVectors_def)

text \<open>
  When no step returns an error and both provider records are present, the pipeline is
  called once and its flag and error are returned as they are.
\<close>

lemma RefreshStoreVectors_single_attempt:
  assumes "GetStorageProviderObj env store = (so, None)"
    and "GetModelProvider env store = (Some mp, None)"
    and "GetEmbeddingProvider env store = (Some ep, None)"
    and "Provider_GetEmbeddingProvider env (Some ep) = Returns (eo, None)"
  shows "\<exists>call. RefreshStoreVectors env (Some store)
                  = (Returns (addVectorsForStore env call), [call]) \<and>
                arg_storageProviderObj call = so \<and> arg_embeddingProviderObj call = eo \<and>
                arg_prefix call = [] \<and> arg_storeName call = Name store \<and>
                arg_embeddingProviderName call = Provider_Name ep \<and>
                arg_modelSubType call = Provider_SubType mp"
  using assms by (simp add: RefreshStoreVectors_def Let_def)

text \<open>
  C1. Every call of the pipeline made by \<open>RefreshStoreVectors\<close> carries the limit 3
  when the Type of the resolved embedding provider record is "OpenAI" and 100000 for any
  other Type; and when the four resolution steps succeed with both records present, the
  pipeline is called, once, with that limit.
\<close>

theorem RefreshStoreVectors_limit:
  "(c \<in> set (snd (RefreshStoreVectors env (Some store))) \<longrightarrow>
      (\<exists>ep. GetEmbeddingProvider env store = (Some ep, None) \<and>
            arg_limit c = (if Provider_Type ep = ''OpenAI'' then 3 else 100000))) \<and>
   (GetStorageProviderObj env store = (so, None) \<and>
    GetModelProvider env store = (Some mp, None) \<and>
    GetEmbeddingProvider env store = (Some ep, None) \<and>
    Provider_GetEmbeddingProvider env (Some ep) = Returns (eo, None) \<longrightarrow>
      (\<exists>c. snd (RefreshStoreVectors env (Some store)) = [c] \<and>
           arg_limit c = (if Provider_Type ep = ''OpenAI'' then 3 else 100000)))"
proof (intro conjI impI)
  assume made: "c \<in> set (snd (RefreshStoreVectors env (Some store)))"
  obtain embeddingProvider err where
    res: "GetEmbeddingProvider env store = (embeddingProvider, err)"
    by (cases "GetEmbeddingProvider env store")
  from made res have "err = None"
    by (auto simp: RefreshStoreVectors_def Let_def
             split: prod.splits option.splits outcome.splits)
  moreover from made res obtain ep' where "embeddingProvider = Some ep'"
    by (auto simp: RefreshStoreVectors_def Let_def
             split: prod.splits option.splits outcome.splits)
  moreover from made res calculation
  have "arg_limit c = (if Provider_Type ep' = ''OpenAI'' then 3 else 100000)"
    by (auto simp: RefreshStoreVectors_def Let_def
             split: prod.splits option.splits outcome.splits)
  ultimately show "\<exists>ep. GetEmbeddingProvider env store = (Some ep, None) \<and>
      arg_limit c = (if Provider_Type ep = ''OpenAI'' then 3 else 100000)"
    using res by blast
next
  assume "GetStorageProviderObj env store = (so, None) \<and>
    GetModelProvider env store = (Some mp, None) \<and>
    GetEmbeddingProvider env store = (Some ep, None) \<and>
    Provider_GetEmbeddingProvider env (Some ep) = Returns (eo, None)"
  then show "\<exists>c. snd (RefreshStoreVectors env (Some store)) = [c] \<and>
      arg_limit c = (if Provider_Type ep = ''OpenAI'' then 3 else 100000)"
    by (simp add: RefreshStoreVectors_def Let_def)
qed

text \<open>
  The spec's scenario: store \<open>t1/s1\<close> with embedding provider \<open>emb-openai\<close> of
  Type "OpenAI": the pipeline is called with limit 3.
\<close>

theorem RefreshStoreVectors_limit_witness:
  "GetEmbeddingProvider demo_collaborators store_s1 = (Some emb_openai, None) \<and>
   Provider_Type emb_openai = ''OpenAI'' \<and>
   (\<exists>c. snd (RefreshStoreVectors demo_collaborators (Some store_s1)) = [c] \<and> arg_limit c = 3)"
  using RefreshStoreVectors_limit [of _ demo_collaborators store_s1 "Some ''default-storage''"
      default_model emb_openai "Some ''emb-openai''"]
  by (simp add: demo_defs)

text \<open>
  C2 at a store that names a model provider that does not exist: every resolution
  step returns a nil error, yet \<open>RefreshStoreVectors\<close> neither returns nor calls the
  pipeline: it panics on \<^verbatim>\<open>modelProvider.SubType\<close>.
\<close>

theorem RefreshStoreVectors_missing_model_provider_panics:
  "GetStorageProviderObj demo_collaborators store_s2 = (Some ''default-storage'', None) \<and>
   GetModelProvider demo_collaborators store_s2 = (None, None) \<and>
   GetEmbeddingProvider demo_collaborators store_s2 = (Some emb_openai, None) \<and>
   Provider_GetEmbeddingProvider demo_collaborators (Some emb_openai)
     = Returns (Some ''emb-openai'', None) \<and>
   RefreshStoreVectors demo_collaborators (Some store_s2) = (Panics, [])"
  by (simp add: demo_defs RefreshStoreVectors_def)

text \<open>
  C10. For every store on which \<open>GetModelProvider\<close> or \<open>GetEmbeddingProvider\<close>
  yields a nil record with a nil error, \<open>RefreshStoreVectors\<close> never calls the
  pipeline and never returns a nil error; and when no step returns an error (the nil
  record passes the error check of its step, and the other steps pass theirs), the call
  panics on the nil record.
\<close>

theorem RefreshStoreVectors_nil_record:
  assumes "GetModelProvider env store = (None, None) \<or>
           GetEmbeddingProvider env store = (None, None)"
  shows "snd (RefreshStoreVectors env (Some store)) = [] \<and>
         (\<forall>ok. fst (RefreshStoreVectors env (Some store)) \<noteq> Returns (ok, None)) \<and>
         (snd (GetStorageProviderObj env store) = None \<and>
          snd (GetModelProvider env store) = None \<and>
          snd (GetEmbeddingProvider env store) = None \<and>
          (\<forall>obj err. Provider_GetEmbeddingProvider env (fst (GetEmbeddingProvider env store))
                        \<noteq> Returns (obj, Some err))
          \<longrightarrow> fst (RefreshStoreVectors env (Some store)) = Panics)"
  using assms
  by (auto simp: RefreshStoreVectors_def Let_def split: prod.splits option.splits outcome.splits)

text \<open>
  \<open>store_s3\<close> names an embedding provider that does not exist: the call panics.
\<close>

theorem RefreshStoreVectors_nil_record_witness:
  "GetEmbeddingProvider demo_collaborators store_s3 = (None, None) \<and>
   RefreshStoreVectors demo_collaborators (Some store_s3) = (Panics, [])"
  using RefreshStoreVectors_nil_record [of demo_collaborators store_s3]
  by (simp add: demo_defs RefreshStoreVectors_def)

end
